theory Spec2Isabelle
  imports Main
begin

section \<open>Python strings of \<^verbatim>\<open>jobspy_bridge.py\<close>\<close>

text \<open>
  A Python \<^verbatim>\<open>str\<close> is a sequence of Unicode code points; slicing and \<^verbatim>\<open>len\<close>
  count code points. Text written to a stream is a \<^typ>\<open>string\<close> of bytes: everything
  the script prints comes out of \<^verbatim>\<open>json.dumps\<close> with its default
  \<^verbatim>\<open>ensure_ascii=True\<close>, so it is ASCII.
\<close>

type_synonym codepoint = nat
type_synonym pystr = "codepoint list"

definition py :: "string \<Rightarrow> pystr" where
  \<comment> \<open>a string literal of the source\<close>
  "py s = map of_char s"

definition ascii :: "codepoint \<Rightarrow> char" where
  "ascii c = char_of c"

text \<open>
  What is raised inside the \<^verbatim>\<open>try\<close> block: \<open>Exception m\<close> is an exception \<open>e\<close> of
  class \<^verbatim>\<open>Exception\<close> with \<^verbatim>\<open>str(e) = m\<close>, which the \<^verbatim>\<open>except\<close> clause catches;
  \<open>Outside\<close> is one outside that class (\<^verbatim>\<open>KeyboardInterrupt\<close>, \<^verbatim>\<open>SystemExit\<close>),
  which it lets through.
\<close>

datatype raised = Exception pystr | Outside

section \<open>The builtin \<^verbatim>\<open>int()\<close> on a string\<close>

text \<open>
  \<^verbatim>\<open>int(s)\<close> in base 10 first brings the text to ASCII: a code point from 127 on
  becomes a space when it is a Unicode space and the digit \<open>0\<close> to \<open>9\<close> it stands
  for when it is a Unicode decimal digit; at any other one the text is cut and closed
  by a question mark. Then surrounding whitespace (tab, line feed, vertical tab, form
  feed, carriage return, space) is stripped, one sign may lead, and decimal digits
  follow, where single underscores may stand between two digits. Anything else raises
  \<^verbatim>\<open>ValueError\<close> (\<open>None\<close> here), and so does a literal of more digits than the
  interpreter's limit, when that limit is set (not 0).

  The two Unicode tables and the limit belong to the interpreter that runs the script,
  so every function that depends on them takes them as a parameter.
\<close>

record interpreter =
  isspace :: "codepoint \<Rightarrow> bool"
  todecimal :: "codepoint \<Rightarrow> nat option"
  max_str_digits :: nat

fun transform :: "interpreter \<Rightarrow> pystr \<Rightarrow> pystr" where
  "transform interp [] = []"
| "transform interp (c # cs) =
     (if c < 127 then c # transform interp cs
      else if isspace interp c then 32 # transform interp cs
      else
        (case todecimal interp c of
           None \<Rightarrow> [63]
         | Some d \<Rightarrow> (48 + d) # transform interp cs))"

definition is_space :: "codepoint \<Rightarrow> bool" where
  "is_space c = ((9 \<le> c \<and> c \<le> 13) \<or> c = 32)"

definition is_digit :: "codepoint \<Rightarrow> bool" where
  "is_digit c = (48 \<le> c \<and> c \<le> 57)"

definition strip :: "pystr \<Rightarrow> pystr" where
  "strip s = rev (dropWhile is_space (rev (dropWhile is_space s)))"

fun digits_from :: "nat \<Rightarrow> pystr \<Rightarrow> nat option" where
  "digits_from acc [] = Some acc"
| "digits_from acc (c # cs) =
     (if is_digit c then digits_from (10 * acc + (c - 48)) cs
      else if c = 95 then
        (case cs of
           [] \<Rightarrow> None
         | d # ds \<Rightarrow> if is_digit d then digits_from (10 * acc + (d - 48)) ds else None)
      else None)"

definition unsigned_literal :: "pystr \<Rightarrow> nat option" where
  "unsigned_literal s =
     (case s of
        [] \<Rightarrow> None
      | c # cs \<Rightarrow> if is_digit c then digits_from (c - 48) cs else None)"

definition signed_literal :: "pystr \<Rightarrow> int option" where
  "signed_literal s =
     (case s of
        [] \<Rightarrow> None
      | c # cs \<Rightarrow>
          if c = 45 then map_option (\<lambda>n. - int n) (unsigned_literal cs)
          else if c = 43 then map_option int (unsigned_literal cs)
          else map_option int (unsigned_literal (c # cs)))"

definition int_py :: "interpreter \<Rightarrow> pystr \<Rightarrow> int option" where
  "int_py interp s =
     (let literal = strip (transform interp s)
      in if 0 < max_str_digits interp
            \<and> max_str_digits interp < length (filter is_digit literal)
         then None
         else signed_literal literal)"

section \<open>The cells of a row and \<^verbatim>\<open>str()\<close>\<close>

text \<open>
  The script only ever applies \<^verbatim>\<open>str()\<close> to a cell. \<open>PyNaN\<close> is the float pandas
  stores for a missing cell. \<open>PyObject s\<close> is any other object whose \<^verbatim>\<open>str()\<close> returns
  the text \<open>s\<close> (a date, a float), and \<open>PyRaising e\<close> one whose \<^verbatim>\<open>__str__\<close> raises
  \<open>e\<close>. \<^verbatim>\<open>str()\<close> of an integer raises \<^verbatim>\<open>ValueError\<close> when the integer has more
  decimal digits than the interpreter's limit, the sign not counted.
\<close>

datatype pyval =
    PyStr pystr
  | PyNone
  | PyBool bool
  | PyInt int
  | PyNaN
  | PyObject pystr
  | PyRaising raised

fun decimal :: "nat \<Rightarrow> pystr" where
  "decimal n = (if n < 10 then [48 + n] else decimal (n div 10) @ [48 + n mod 10])"

declare decimal.simps [simp del]

definition exceeds_the_limit :: "interpreter \<Rightarrow> pystr" where
  \<comment> \<open>the message of the \<^verbatim>\<open>ValueError\<close>\<close>
  "exceeds_the_limit interp =
     py ''Exceeds the limit ('' @ decimal (max_str_digits interp)
     @ py '' digits) for integer string conversion; ''
     @ py ''use sys.set_int_max_str_digits() to increase the limit''"

fun str :: "interpreter \<Rightarrow> pyval \<Rightarrow> raised + pystr" where
  "str interp (PyStr s) = Inr s"
| "str interp PyNone = Inr (py ''None'')"
| "str interp (PyBool b) = Inr (if b then py ''True'' else py ''False'')"
| "str interp (PyInt i) =
     (if 0 < max_str_digits interp \<and> max_str_digits interp < length (decimal (nat \<bar>i\<bar>))
      then Inl (Exception (exceeds_the_limit interp))
      else Inr (if i < 0 then py ''-'' @ decimal (nat (- i)) else decimal (nat i)))"
| "str interp PyNaN = Inr (py ''nan'')"
| "str interp (PyObject s) = Inr s"
| "str interp (PyRaising e) = Inl e"

section \<open>\<^verbatim>\<open>json.dumps\<close> with its default arguments\<close>

datatype json = JString pystr | JArray "json list" | JObject "(pystr \<times> json) list"

definition hex_digit :: "nat \<Rightarrow> char" where
  "hex_digit d = ''0123456789abcdef'' ! (d mod 16)"

definition hex4 :: "nat \<Rightarrow> string" where
  \<comment> \<open>\<^verbatim>\<open>'{0:04x}'.format(n)\<close> for \<open>n < 0x10000\<close>\<close>
  "hex4 n = [hex_digit (n div 4096), hex_digit (n div 256), hex_digit (n div 16), hex_digit n]"

definition escape :: "codepoint \<Rightarrow> string" where
  \<comment> \<open>\<^verbatim>\<open>replace\<close> in \<^verbatim>\<open>py_encode_basestring_ascii\<close>, on one code point\<close>
  "escape c =
     (if c = 92 then [CHR 0x5C, CHR 0x5C]
      else if c = 34 then [CHR 0x5C, CHR 0x22]
      else if c = 8 then [CHR 0x5C, CHR ''b'']
      else if c = 12 then [CHR 0x5C, CHR ''f'']
      else if c = 10 then [CHR 0x5C, CHR ''n'']
      else if c = 13 then [CHR 0x5C, CHR ''r'']
      else if c = 9 then [CHR 0x5C, CHR ''t'']
      else if 32 \<le> c \<and> c \<le> 126 then [ascii c]
      else if c < 65536 then [CHR 0x5C, CHR ''u''] @ hex4 c
      else
        (let n = c - 65536;
             s1 = 55296 + (n div 1024) mod 1024;
             s2 = 56320 + n mod 1024
         in [CHR 0x5C, CHR ''u''] @ hex4 s1 @ [CHR 0x5C, CHR ''u''] @ hex4 s2))"

definition encode_basestring_ascii :: "pystr \<Rightarrow> string" where
  "encode_basestring_ascii s = [CHR 0x22] @ concat (map escape s) @ [CHR 0x22]"

fun join :: "string \<Rightarrow> string list \<Rightarrow> string" where
  "join sep [] = []"
| "join sep [x] = x"
| "join sep (x # y # ys) = x @ sep @ join sep (y # ys)"

fun json_dumps :: "json \<Rightarrow> string" where
  "json_dumps (JString s) = encode_basestring_ascii s"
| "json_dumps (JArray xs) = ''['' @ join '', '' (map json_dumps xs) @ '']''"
| "json_dumps (JObject kvs) =
     ''{'' @ join '', '' (map (\<lambda>(k, v). encode_basestring_ascii k @ '': '' @ json_dumps v) kvs) @ ''}''"

definition print :: "string \<Rightarrow> string" where
  \<comment> \<open>the text \<^verbatim>\<open>print(s)\<close> writes to its stream\<close>
  "print s = s @ [CHR 0x0A]"

section \<open>The external search capability\<close>

text \<open>
  \<^verbatim>\<open>scrape_jobs\<close> is called with six keyword arguments and either raises (\<open>Inl\<close>) or
  returns a table (\<open>Inr rows\<close>, the rows that \<^verbatim>\<open>iterrows()\<close> yields). A row maps the
  column labels it has to cells.
\<close>

record scrape_request =
  site_name :: "pystr list"
  search_term :: pystr
  location :: pystr
  results_wanted :: int
  hours_old :: int
  country_indeed :: pystr

type_synonym job = "pystr \<rightharpoonup> pyval"

type_synonym scraper = "scrape_request \<Rightarrow> raised + job list"

definition get :: "job \<Rightarrow> pystr \<Rightarrow> pyval \<Rightarrow> pyval" where
  \<comment> \<open>\<^verbatim>\<open>job.get(key, default)\<close>\<close>
  "get job key dflt = (case job key of None \<Rightarrow> dflt | Some v \<Rightarrow> v)"

section \<open>The script\<close>

definition and_then :: "raised + 'a \<Rightarrow> ('a \<Rightarrow> raised + 'b) \<Rightarrow> raised + 'b" where
  \<comment> \<open>evaluate, and go on with the value unless something was raised\<close>
  "and_then m f = (case m of Inl e \<Rightarrow> Inl e | Inr x \<Rightarrow> f x)"

text \<open>
  The dictionary display of the loop body. Its seven values are evaluated in the
  order written; the first \<^verbatim>\<open>str()\<close> that raises ends the evaluation.
\<close>

definition listing :: "interpreter \<Rightarrow> job \<Rightarrow> raised + json" where
  "listing interp job =
     and_then (str interp (get job (py ''title'') (PyStr (py '''')))) (\<lambda>title.
     and_then (str interp (get job (py ''company_name'') (PyStr (py '''')))) (\<lambda>company.
     and_then (str interp (get job (py ''city'') (PyStr (py '''')))) (\<lambda>city.
     and_then (str interp (get job (py ''state'') (PyStr (py '''')))) (\<lambda>state.
     and_then (str interp (get job (py ''date_posted'') (PyStr (py '''')))) (\<lambda>date_posted.
     and_then (str interp (get job (py ''job_url'') (PyStr (py '''')))) (\<lambda>job_url.
     and_then (str interp (get job (py ''description'') (PyStr (py '''')))) (\<lambda>description.
       Inr (JObject
         [(py ''title'', JString title),
          (py ''company'', JString company),
          (py ''city'', JString city),
          (py ''state'', JString state),
          (py ''date_posted'', JString date_posted),
          (py ''job_url'', JString job_url),
          (py ''description'', JString (take 300 description))]))))))))"

fun iterrows :: "interpreter \<Rightarrow> job list \<Rightarrow> json list \<Rightarrow> raised + json list" where
  \<comment> \<open>the \<^verbatim>\<open>for\<close> loop, \<open>results\<close> being the list built so far\<close>
  "iterrows interp [] results = Inr results"
| "iterrows interp (job # jobs) results =
     and_then (listing interp job) (\<lambda>d. iterrows interp jobs (results @ [d]))"

definition try_body :: "interpreter \<Rightarrow> scraper \<Rightarrow> scrape_request \<Rightarrow> raised + json list" where
  \<comment> \<open>the \<^verbatim>\<open>try\<close> block up to the list it hands to \<^verbatim>\<open>json.dumps\<close>\<close>
  "try_body interp scrape_jobs request =
     and_then (scrape_jobs request) (\<lambda>jobs. iterrows interp jobs [])"

text \<open>
  What one run of the script leaves behind: the text it printed on each stream, the
  calls it made to the search capability, and how it ended. \<open>Exit n\<close> is a normal end
  (\<open>0\<close>) or \<^verbatim>\<open>sys.exit(n)\<close>. \<open>Uncaught e\<close> is an exception that left the module:
  \<^verbatim>\<open>IndexError\<close> and \<^verbatim>\<open>ValueError\<close> from the lines that read the arguments, and
  \<open>Propagated\<close> for one outside class \<^verbatim>\<open>Exception\<close> raised inside the \<^verbatim>\<open>try\<close>
  block. What the interpreter itself then does (a traceback on standard error and
  status 1, or the status a \<^verbatim>\<open>SystemExit\<close> asks for) is not part of the record:
  \<open>stderr\<close> holds what the script printed.
\<close>

datatype error = IndexError | ValueError | Propagated

datatype ending = Exit nat | Uncaught error

record run =
  stdout :: string
  stderr :: string
  calls :: "scrape_request list"
  ending :: ending

text \<open>
  The rest of the \<^verbatim>\<open>try\<close> statement, by what its block came to: the array is
  printed, or the \<^verbatim>\<open>except\<close> clause reports the exception and exits, or the
  exception is not one the clause catches.
\<close>

definition outcome :: "scrape_request \<Rightarrow> raised + json list \<Rightarrow> run" where
  "outcome request tried =
     (case tried of
        Inr results \<Rightarrow>
          \<lparr>stdout = print (json_dumps (JArray results)), stderr = [],
           calls = [request], ending = Exit 0\<rparr>
      | Inl (Exception e) \<Rightarrow>
          \<lparr>stdout = [], stderr = print (json_dumps (JObject [(py ''error'', JString e)])),
           calls = [request], ending = Exit 1\<rparr>
      | Inl Outside \<Rightarrow>
          \<lparr>stdout = [], stderr = [], calls = [request], ending = Uncaught Propagated\<rparr>)"

definition jobspy_bridge :: "interpreter \<Rightarrow> scraper \<Rightarrow> pystr list \<Rightarrow> run" where
  "jobspy_bridge interp scrape_jobs argv =
     (if length argv \<le> 1 then
        \<lparr>stdout = [], stderr = [], calls = [], ending = Uncaught IndexError\<rparr>
      else
        let search_term' = argv ! 1;
            location' = (if length argv > 2 then argv ! 2 else py ''United States'')
        in case (if length argv > 3 then int_py interp (argv ! 3) else Some 24) of
             None \<Rightarrow> \<lparr>stdout = [], stderr = [], calls = [], ending = Uncaught ValueError\<rparr>
           | Some hours_old' \<Rightarrow>
               let request =
                     \<lparr>site_name = [py ''indeed''],
                      search_term = search_term',
                      location = location',
                      results_wanted = 50,
                      hours_old = hours_old',
                      country_indeed = py ''USA''\<rparr>
               in outcome request (try_body interp scrape_jobs request))"

section \<open>Reading the output\<close>


definition projection :: "(pystr \<times> pystr) list" where
  "projection =
     [(py ''title'', py ''title''),
      (py ''company'', py ''company_name''),
      (py ''city'', py ''city''),
      (py ''state'', py ''state''),
      (py ''date_posted'', py ''date_posted''),
      (py ''job_url'', py ''job_url''),
      (py ''description'', py ''description'')]"



fun json_field :: "json \<Rightarrow> pystr \<Rightarrow> json option" where
  "json_field (JObject kvs) k = map_of kvs k"
| "json_field _ k = None"

text \<open>A row renders when none of its seven \<^verbatim>\<open>str()\<close> calls raises.\<close>

definition renders :: "interpreter \<Rightarrow> job \<Rightarrow> bool" where
  "renders interp job = (case listing interp job of Inr d \<Rightarrow> True | Inl e \<Rightarrow> False)"

text \<open>
  A row has no value for a column when it lacks the column, or has it with a null cell
  (\<^verbatim>\<open>None\<close>, or the NaN of pandas).
\<close>

fun is_null :: "pyval \<Rightarrow> bool" where
  "is_null PyNone = True"
| "is_null PyNaN = True"
| "is_null _ = False"

definition missing_value :: "job \<Rightarrow> pystr \<Rightarrow> bool" where
  "missing_value job column = (case job column of None \<Rightarrow> True | Some v \<Rightarrow> is_null v)"

text \<open>
  The command lines the script goes on with: a search term is there, and the third
  argument, when there is one, is an integer literal.
\<close>

definition arguments_accepted :: "interpreter \<Rightarrow> pystr list \<Rightarrow> bool" where
  "arguments_accepted interp argv =
     (length argv > 1 \<and> (length argv > 3 \<longrightarrow> int_py interp (argv ! 3) \<noteq> None))"






text \<open>Characters that \<^verbatim>\<open>json.dumps\<close> copies unchanged.\<close>

definition plain :: "char \<Rightarrow> bool" where
  "plain c = (32 \<le> (of_char c :: nat) \<and> (of_char c :: nat) \<le> 126
     \<and> (of_char c :: nat) \<noteq> 34 \<and> (of_char c :: nat) \<noteq> 92)"

section \<open>Example runs\<close>

text \<open>An interpreter with the usual limit, whose Unicode tables are empty.\<close>

definition ascii_interpreter :: interpreter where
  "ascii_interpreter =
     \<lparr>isspace = (\<lambda>c. False), todecimal = (\<lambda>c. None), max_str_digits = 4300\<rparr>"

text \<open>One that knows the no-break space and the Arabic-Indic digits.\<close>

definition arabic_interpreter :: interpreter where
  "arabic_interpreter =
     \<lparr>isspace = (\<lambda>c. c = 160),
      todecimal = (\<lambda>c. if 1632 \<le> c \<and> c \<le> 1641 then Some (c - 1632) else None),
      max_str_digits = 4300\<rparr>"

definition acme_job :: job where
  "acme_job =
     [py ''title'' \<mapsto> PyStr (py ''Engineer''),
      py ''company_name'' \<mapsto> PyStr (py ''Acme''),
      py ''city'' \<mapsto> PyStr (py ''Springfield''),
      py ''state'' \<mapsto> PyStr (py ''IL''),
      py ''date_posted'' \<mapsto> PyStr (py ''2024-01-01''),
      py ''job_url'' \<mapsto> PyStr (py ''http://x''),
      py ''description'' \<mapsto> PyStr (py (replicate 500 (CHR ''A'')))]"

definition acme_listing :: json where
  "acme_listing = JObject
     [(py ''title'', JString (py ''Engineer'')),
      (py ''company'', JString (py ''Acme'')),
      (py ''city'', JString (py ''Springfield'')),
      (py ''state'', JString (py ''IL'')),
      (py ''date_posted'', JString (py ''2024-01-01'')),
      (py ''job_url'', JString (py ''http://x'')),
      (py ''description'', JString (py (replicate 300 (CHR ''A''))))]"

text \<open>A row whose seven cells are \<^verbatim>\<open>None\<close>, and one whose seven cells are NaN.\<close>

definition null_job :: job where
  "null_job =
     [py ''title'' \<mapsto> PyNone, py ''company_name'' \<mapsto> PyNone, py ''city'' \<mapsto> PyNone,
      py ''state'' \<mapsto> PyNone, py ''date_posted'' \<mapsto> PyNone, py ''job_url'' \<mapsto> PyNone,
      py ''description'' \<mapsto> PyNone]"

definition nan_job :: job where
  "nan_job =
     [py ''title'' \<mapsto> PyNaN, py ''company_name'' \<mapsto> PyNaN, py ''city'' \<mapsto> PyNaN,
      py ''state'' \<mapsto> PyNaN, py ''date_posted'' \<mapsto> PyNaN, py ''job_url'' \<mapsto> PyNaN,
      py ''description'' \<mapsto> PyNaN]"

text \<open>
  A row whose title is the integer written as a one and 4300 zeros: 4301 digits, one
  more than \<^verbatim>\<open>str()\<close> renders under the usual limit.
\<close>

definition huge :: nat where
  "huge = 10 ^ 4300"

definition huge_job :: job where
  "huge_job = acme_job(py ''title'' \<mapsto> PyInt (int huge))"

definition returns_acme :: scraper where
  "returns_acme request = Inr [acme_job]"


definition returns_acme_then_huge :: scraper where
  "returns_acme_then_huge request = Inr [acme_job, huge_job]"

definition returns_nothing :: scraper where
  "returns_nothing request = Inr []"

definition rate_limited :: scraper where
  "rate_limited request = Inl (Exception (py ''rate limited''))"

definition interrupted :: scraper where
  "interrupted request = Inl Outside"

definition awkward_text :: pystr where
  \<comment> \<open>a quote, a backslash, a line feed, DEL, e acute, and U+1F600\<close>
  "awkward_text = [34, 92, 10, 127, 233, 128512]"


definition argv_term_only :: "pystr list" where
  "argv_term_only = [py ''jobspy_bridge.py'', py ''nurse'']"

definition argv_all :: "pystr list" where
  "argv_all = [py ''jobspy_bridge.py'', py ''nurse'', py ''Texas'', py ''48'']"

definition argv_abc :: "pystr list" where
  "argv_abc = [py ''jobspy_bridge.py'', py ''nurse'', py ''Texas'', py ''abc'']"

definition request_term_only :: scrape_request where
  "request_term_only =
     \<lparr>site_name = [py ''indeed''], search_term = py ''nurse'', location = py ''United States'',
      results_wanted = 50, hours_old = 24, country_indeed = py ''USA''\<rparr>"

definition request_all :: scrape_request where
  "request_all =
     \<lparr>site_name = [py ''indeed''], search_term = py ''nurse'', location = py ''Texas'',
      results_wanted = 50, hours_old = 48, country_indeed = py ''USA''\<rparr>"

section \<open>Basic facts\<close>

subsection \<open>String literals\<close>

lemma py_eq_iff [simp]: "py s = py t \<longleftrightarrow> s = t"
proof -
  have "inj (of_char :: char \<Rightarrow> nat)"
    by (rule injI) simp
  then show ?thesis
    by (simp add: py_def inj_map_eq_map)
qed

lemma py_Nil [simp]: "py [] = []"
  by (simp add: py_def)

lemma py_eq_Nil_iff [simp]: "py s = [] \<longleftrightarrow> s = []"
  by (simp add: py_def)

lemma length_py [simp]: "length (py s) = length s"
  by (simp add: py_def)

lemma take_py: "take n (py s) = py (take n s)"
  by (simp add: py_def take_map)

subsection \<open>Serialisation of plain text\<close>

lemma escape_plain: "plain c \<Longrightarrow> escape (of_char c) = [c]"
  by (auto simp: plain_def escape_def ascii_def)

lemma encode_plain:
  "list_all plain s \<Longrightarrow> encode_basestring_ascii (py s) = CHR 0x22 # s @ [CHR 0x22]"
  by (induction s) (simp_all add: encode_basestring_ascii_def py_def escape_plain)

lemma plain_replicate_A: "list_all plain (replicate n (CHR ''A''))"
  by (induction n) (simp_all add: plain_def)

lemma print_not_Nil [simp]: "print s \<noteq> []" "[] \<noteq> print s"
  by (simp_all add: print_def)

subsection \<open>Integer literals\<close>

lemma int_py_abc: "int_py interp (py ''abc'') = None"
  by (simp add: int_py_def Let_def strip_def py_def is_space_def signed_literal_def
      unsigned_literal_def is_digit_def)

lemma int_py_48: "int_py ascii_interpreter (py ''48'') = Some 48"
  by (simp add: int_py_def Let_def strip_def py_def is_space_def signed_literal_def
      unsigned_literal_def is_digit_def ascii_interpreter_def)

text \<open>
  A literal in a script the interpreter knows is read like its ASCII form; a letter of
  another script makes it invalid; and 4301 digits are one too many.
\<close>

lemma int_py_arabic: "int_py arabic_interpreter [160, 1636, 1640] = Some 48"
  by (simp add: int_py_def Let_def strip_def is_space_def signed_literal_def
      unsigned_literal_def is_digit_def arabic_interpreter_def)

lemma int_py_other_script: "int_py arabic_interpreter [52, 233, 56] = None"
  by (simp add: int_py_def Let_def strip_def is_space_def signed_literal_def
      unsigned_literal_def is_digit_def arabic_interpreter_def)

lemma transform_ascii: "list_all (\<lambda>c. c < 127) s \<Longrightarrow> transform interp s = s"
  by (induction s) simp_all

lemma int_py_too_long: "int_py ascii_interpreter (replicate 4301 57) = None"
proof -
  have "transform ascii_interpreter (replicate 4301 57) = replicate 4301 57"
    by (rule transform_ascii) (simp add: list_all_iff)
  moreover have "strip (replicate 4301 57) = replicate 4301 57"
    by (simp add: strip_def is_space_def dropWhile_replicate)
  moreover have "length (filter is_digit (replicate 4301 57)) = 4301"
    by (simp add: is_digit_def)
  ultimately show ?thesis
    by (simp add: int_py_def Let_def ascii_interpreter_def)
qed

subsection \<open>Rendering integers\<close>

lemma length_decimal_power: "length (decimal (10 ^ k)) = Suc k"
proof (induction k)
  case 0
  show ?case
    by (subst decimal.simps) simp
next
  case (Suc k)
  have "\<not> (10 :: nat) ^ Suc k < 10"
    by simp
  then have "decimal (10 ^ Suc k) = decimal (10 ^ Suc k div 10) @ [48 + 10 ^ Suc k mod 10]"
    by (subst decimal.simps) simp
  with Suc show ?case
    by simp
qed

lemma str_huge:
  "str ascii_interpreter (PyInt (int huge)) = Inl (Exception (exceeds_the_limit ascii_interpreter))"
proof -
  have "length (decimal huge) = 4301"
    unfolding huge_def by (simp only: length_decimal_power)
  then show ?thesis
    by (simp add: ascii_interpreter_def)
qed

subsection \<open>The emitted object\<close>

lemma and_then_Inr [simp]: "and_then (Inr x) f = f x"
  by (simp add: and_then_def)

lemma and_then_Inl [simp]: "and_then (Inl e) f = Inl e"
  by (simp add: and_then_def)

lemma and_then_eq_Inr: "and_then m f = Inr y \<longleftrightarrow> (\<exists>x. m = Inr x \<and> f x = Inr y)"
  by (cases m) simp_all

lemma listing_returns:
  assumes "listing interp job = Inr emitted"
  shows "\<exists>title company city state date_posted job_url description.
      str interp (get job (py ''title'') (PyStr [])) = Inr title
    \<and> str interp (get job (py ''company_name'') (PyStr [])) = Inr company
    \<and> str interp (get job (py ''city'') (PyStr [])) = Inr city
    \<and> str interp (get job (py ''state'') (PyStr [])) = Inr state
    \<and> str interp (get job (py ''date_posted'') (PyStr [])) = Inr date_posted
    \<and> str interp (get job (py ''job_url'') (PyStr [])) = Inr job_url
    \<and> str interp (get job (py ''description'') (PyStr [])) = Inr description
    \<and> emitted = JObject
         [(py ''title'', JString title),
          (py ''company'', JString company),
          (py ''city'', JString city),
          (py ''state'', JString state),
          (py ''date_posted'', JString date_posted),
          (py ''job_url'', JString job_url),
          (py ''description'', JString (take 300 description))]"
  using assms unfolding listing_def and_then_eq_Inr py_Nil by blast



lemma field_of_listing:
  assumes "listing interp job = Inr emitted" and "(key, column) \<in> set projection"
  shows "\<exists>s. str interp (get job column (PyStr [])) = Inr s
    \<and> json_field emitted key =
        Some (JString (if key = py ''description'' then take 300 s else s))"
proof -
  from assms(2) consider
      "key = py ''title''" "column = py ''title''"
    | "key = py ''company''" "column = py ''company_name''"
    | "key = py ''city''" "column = py ''city''"
    | "key = py ''state''" "column = py ''state''"
    | "key = py ''date_posted''" "column = py ''date_posted''"
    | "key = py ''job_url''" "column = py ''job_url''"
    | "key = py ''description''" "column = py ''description''"
    unfolding projection_def by auto
  then show ?thesis
    using listing_returns [OF assms(1)]
    by cases auto
qed

lemma renders_iff: "renders interp job \<longleftrightarrow> (\<exists>d. listing interp job = Inr d)"
  by (cases "listing interp job") (simp_all add: renders_def)

lemma listing_acme_job: "listing interp acme_job = Inr acme_listing"
  by (simp add: listing_def acme_job_def acme_listing_def get_def take_py)

lemma listing_null_job:
  "listing interp null_job = Inr (JObject
     [(py ''title'', JString (py ''None'')),
      (py ''company'', JString (py ''None'')),
      (py ''city'', JString (py ''None'')),
      (py ''state'', JString (py ''None'')),
      (py ''date_posted'', JString (py ''None'')),
      (py ''job_url'', JString (py ''None'')),
      (py ''description'', JString (py ''None''))])"
  by (simp add: listing_def null_job_def get_def take_py)

lemma listing_nan_job:
  "listing interp nan_job = Inr (JObject
     [(py ''title'', JString (py ''nan'')),
      (py ''company'', JString (py ''nan'')),
      (py ''city'', JString (py ''nan'')),
      (py ''state'', JString (py ''nan'')),
      (py ''date_posted'', JString (py ''nan'')),
      (py ''job_url'', JString (py ''nan'')),
      (py ''description'', JString (py ''nan''))])"
  by (simp add: listing_def nan_job_def get_def take_py)

lemma listing_empty_job:
  "listing interp Map.empty = Inr (JObject
     [(py ''title'', JString []),
      (py ''company'', JString []),
      (py ''city'', JString []),
      (py ''state'', JString []),
      (py ''date_posted'', JString []),
      (py ''job_url'', JString []),
      (py ''description'', JString [])])"
  by (simp add: listing_def get_def)

lemma listing_huge_job:
  "listing ascii_interpreter huge_job = Inl (Exception (exceeds_the_limit ascii_interpreter))"
  by (simp add: listing_def huge_job_def get_def str_huge del: str.simps)

lemma dumps_acme_job:
  \<open>json_dumps (JArray [acme_listing]) =
     ''[{"title": "Engineer", "company": "Acme", "city": "Springfield", "state": "IL", ''
     @ ''"date_posted": "2024-01-01", "job_url": "http://x", "description": "''
     @ replicate 300 (CHR ''A'') @ ''"}]''\<close>
proof -
  have "list_all plain ''title''" "list_all plain ''company''" "list_all plain ''city''"
    "list_all plain ''state''" "list_all plain ''date_posted''" "list_all plain ''job_url''"
    "list_all plain ''description''" "list_all plain ''Engineer''" "list_all plain ''Acme''"
    "list_all plain ''Springfield''" "list_all plain ''IL''" "list_all plain ''2024-01-01''"
    "list_all plain ''http://x''"
    by (simp_all add: plain_def)
  then show ?thesis
    by (simp add: acme_listing_def encode_plain plain_replicate_A)
qed

subsection \<open>The loop\<close>

lemma iterrows_returns:
  "iterrows interp jobs results = Inr out \<longleftrightarrow>
     (\<exists>elems. map (listing interp) jobs = map Inr elems \<and> out = results @ elems)"
proof (induction jobs arbitrary: results)
  case Nil
  show ?case by auto
next
  case (Cons job jobs)
  show ?case
  proof
    assume "iterrows interp (job # jobs) results = Inr out"
    then obtain d where d: "listing interp job = Inr d"
      and "iterrows interp jobs (results @ [d]) = Inr out"
      by (auto simp: and_then_eq_Inr)
    with Cons obtain elems where "map (listing interp) jobs = map Inr elems"
      and "out = (results @ [d]) @ elems"
      by blast
    with d have "map (listing interp) (job # jobs) = map Inr (d # elems)"
      and "out = results @ d # elems"
      by simp_all
    then show "\<exists>elems. map (listing interp) (job # jobs) = map Inr elems \<and> out = results @ elems"
      by blast
  next
    assume "\<exists>elems. map (listing interp) (job # jobs) = map Inr elems \<and> out = results @ elems"
    then obtain elems where m: "map (listing interp) (job # jobs) = map Inr elems"
      and out: "out = results @ elems"
      by blast
    from m obtain d rest where elems: "elems = d # rest" and d: "listing interp job = Inr d"
      and rest: "map (listing interp) jobs = map Inr rest"
      by (cases elems) auto
    from rest out elems Cons have "iterrows interp jobs (results @ [d]) = Inr out"
      by auto
    with d show "iterrows interp (job # jobs) results = Inr out"
      by simp
  qed
qed

lemma rendered_rows:
  "(\<forall>job \<in> set jobs. renders interp job) \<longleftrightarrow> (\<exists>elems. map (listing interp) jobs = map Inr elems)"
proof (induction jobs)
  case Nil
  show ?case by simp
next
  case (Cons job jobs)
  show ?case
  proof
    assume "\<forall>j \<in> set (job # jobs). renders interp j"
    with Cons obtain d elems where "listing interp job = Inr d"
      and "map (listing interp) jobs = map Inr elems"
      by (auto simp: renders_iff)
    then have "map (listing interp) (job # jobs) = map Inr (d # elems)"
      by simp
    then show "\<exists>elems. map (listing interp) (job # jobs) = map Inr elems"
      by blast
  next
    assume "\<exists>elems. map (listing interp) (job # jobs) = map Inr elems"
    then obtain elems where m: "map (listing interp) (job # jobs) = map Inr elems"
      by blast
    then obtain d rest where "listing interp job = Inr d"
      and "map (listing interp) jobs = map Inr rest"
      by (cases elems) auto
    with Cons show "\<forall>j \<in> set (job # jobs). renders interp j"
      by (auto simp: renders_iff)
  qed
qed



lemma try_body_raises:
  assumes "try_body interp scrape_jobs request = Inl e"
  shows "scrape_jobs request = Inl e
    \<or> (\<exists>jobs. scrape_jobs request = Inr jobs \<and> \<not> (\<forall>job \<in> set jobs. renders interp job))"
proof (cases "scrape_jobs request")
  case (Inl e')
  with assms show ?thesis
    by (simp add: try_body_def)
next
  case (Inr jobs)
  with assms have "iterrows interp jobs [] = Inl e"
    by (simp add: try_body_def)
  then have "\<not> (\<exists>elems. map (listing interp) jobs = map Inr elems)"
    using iterrows_returns [of interp jobs "[]"] by auto
  with Inr show ?thesis
    by (simp add: rendered_rows)
qed




subsection \<open>The ways a run can go\<close>

lemma calls_outcome [simp]: "calls (outcome request tried) = [request]"
  by (simp add: outcome_def split: sum.splits raised.splits)

lemma outcome_Inr [simp]:
  "outcome request (Inr results) =
     \<lparr>stdout = print (json_dumps (JArray results)), stderr = [],
      calls = [request], ending = Exit 0\<rparr>"
  by (simp add: outcome_def)

lemma outcome_Exception [simp]:
  "outcome request (Inl (Exception e)) =
     \<lparr>stdout = [], stderr = print (json_dumps (JObject [(py ''error'', JString e)])),
      calls = [request], ending = Exit 1\<rparr>"
  by (simp add: outcome_def)

lemma outcome_Outside [simp]:
  "outcome request (Inl Outside) =
     \<lparr>stdout = [], stderr = [], calls = [request], ending = Uncaught Propagated\<rparr>"
  by (simp add: outcome_def)

lemma run_unfold:
  assumes "length argv > 1"
    and "(if length argv > 3 then int_py interp (argv ! 3) else Some 24) = Some h"
  shows "jobspy_bridge interp scrape_jobs argv =
    outcome
      \<lparr>site_name = [py ''indeed''], search_term = argv ! 1,
        location = (if length argv > 2 then argv ! 2 else py ''United States''),
        results_wanted = 50, hours_old = h, country_indeed = py ''USA''\<rparr>
      (try_body interp scrape_jobs
        \<lparr>site_name = [py ''indeed''], search_term = argv ! 1,
          location = (if length argv > 2 then argv ! 2 else py ''United States''),
          results_wanted = 50, hours_old = h, country_indeed = py ''USA''\<rparr>)"
proof -
  from assms(1) have "\<not> length argv \<le> 1"
    by simp
  then show ?thesis
    unfolding jobspy_bridge_def Let_def assms(2) by simp
qed

lemma run_rejected:
  assumes "\<not> arguments_accepted interp argv"
  shows "jobspy_bridge interp scrape_jobs argv =
    \<lparr>stdout = [], stderr = [], calls = [],
     ending = Uncaught (if length argv \<le> 1 then IndexError else ValueError)\<rparr>"
proof (cases "length argv \<le> 1")
  case True
  then show ?thesis
    by (simp add: jobspy_bridge_def)
next
  case False
  with assms have "length argv > 3" and "int_py interp (argv ! 3) = None"
    by (auto simp: arguments_accepted_def)
  with False show ?thesis
    by (simp add: jobspy_bridge_def Let_def)
qed

lemma accepted_parse:
  assumes "arguments_accepted interp argv"
  shows "length argv > 1"
    and "\<exists>h. (if length argv > 3 then int_py interp (argv ! 3) else Some 24) = Some h"
  using assms by (auto simp: arguments_accepted_def)


lemma run_called:
  assumes "request \<in> set (calls (jobspy_bridge interp scrape_jobs argv))"
  shows "jobspy_bridge interp scrape_jobs argv =
    outcome request (try_body interp scrape_jobs request)"
proof (cases "arguments_accepted interp argv")
  case False
  from run_rejected [OF this, of scrape_jobs] assms show ?thesis
    by simp
next
  case True
  from accepted_parse [OF this] obtain h where len: "length argv > 1"
    and h: "(if length argv > 3 then int_py interp (argv ! 3) else Some 24) = Some h"
    by blast
  from run_unfold [OF len h, of scrape_jobs] assms show ?thesis
    by simp
qed

subsection \<open>The example runs\<close>

lemma calls_term_only:
  "calls (jobspy_bridge interp scrape_jobs argv_term_only) = [request_term_only]"
proof -
  have "length argv_term_only > 1"
    and "(if length argv_term_only > 3 then int_py interp (argv_term_only ! 3) else Some 24)
      = Some 24"
    by (simp_all add: argv_term_only_def)
  from run_unfold [OF this, of scrape_jobs] show ?thesis
    by (simp add: argv_term_only_def request_term_only_def)
qed

lemma calls_all:
  "calls (jobspy_bridge ascii_interpreter scrape_jobs argv_all) = [request_all]"
proof -
  have "length argv_all > 1"
    and "(if length argv_all > 3 then int_py ascii_interpreter (argv_all ! 3) else Some 24)
      = Some 48"
    by (simp_all add: argv_all_def int_py_48)
  from run_unfold [OF this, of scrape_jobs] show ?thesis
    by (simp add: argv_all_def request_all_def)
qed


lemma accepted_all: "arguments_accepted ascii_interpreter argv_all"
  by (simp add: arguments_accepted_def argv_all_def int_py_48)



lemma try_returns_acme: "try_body interp returns_acme request = Inr [acme_listing]"
  by (simp add: try_body_def returns_acme_def listing_acme_job)


lemma try_returns_acme_then_huge:
  "try_body ascii_interpreter returns_acme_then_huge request =
     Inl (Exception (exceeds_the_limit ascii_interpreter))"
  by (simp add: try_body_def returns_acme_then_huge_def listing_acme_job listing_huge_job)

lemma try_rate_limited: "try_body interp rate_limited request = Inl (Exception (py ''rate limited''))"
  by (simp add: try_body_def rate_limited_def)

lemma try_interrupted: "try_body interp interrupted request = Inl Outside"
  by (simp add: try_body_def interrupted_def)

subsection \<open>Serialisation at work\<close>

text \<open>
  An empty table is printed as an empty array. Quotes, backslashes and control
  characters are escaped, and a code point beyond ASCII is written as one or, beyond
  the basic plane, two escapes: a backslash, the letter \<open>u\<close> and four lower-case
  hexadecimal digits.
\<close>

lemma empty_table_prints_empty_array:
  "stdout (jobspy_bridge interp returns_nothing argv_term_only) = ''[]'' @ [CHR 0x0A]"
proof -
  have "request_term_only \<in> set (calls (jobspy_bridge interp returns_nothing argv_term_only))"
    by (simp add: calls_term_only)
  from run_called [OF this] show ?thesis
    by (simp add: try_body_def returns_nothing_def print_def)
qed

lemma hex4_examples:
  "hex4 127 = ''007f''" "hex4 233 = ''00e9''" "hex4 55357 = ''d83d''" "hex4 56832 = ''de00''"
  by (simp_all add: hex4_def hex_digit_def)

lemma encode_awkward_text:
  \<open>encode_basestring_ascii awkward_text =
     [CHR 0x22] @ [CHR 0x5C, CHR 0x22] @ [CHR 0x5C, CHR 0x5C] @ [CHR 0x5C, CHR ''n'']
     @ [CHR 0x5C] @ ''u007f'' @ [CHR 0x5C] @ ''u00e9''
     @ [CHR 0x5C] @ ''ud83d'' @ [CHR 0x5C] @ ''ude00'' @ [CHR 0x22]\<close>
  by (simp add: encode_basestring_ascii_def awkward_text_def escape_def hex4_def hex_digit_def)

section \<open>What a successful run prints\<close>




text \<open>
  C9. When the search capability returns the single row with title \<open>Engineer\<close>,
  \<open>company_name\<close> \<open>Acme\<close>, city \<open>Springfield\<close>, state \<open>IL\<close>, \<open>date_posted\<close> \<open>2024-01-01\<close>,
  \<open>job_url\<close> \<open>http://x\<close> and a description of 500 letters \<open>A\<close>, the output is the JSON
  array of one object with title \<open>Engineer\<close>, company \<open>Acme\<close> (the column
  \<open>company_name\<close> under the key \<open>company\<close>), city \<open>Springfield\<close>, state \<open>IL\<close>,
  \<open>date_posted\<close> \<open>2024-01-01\<close>, \<open>job_url\<close> \<open>http://x\<close> and a description of 300 letters \<open>A\<close>.
  The second equation spells the printed line out: \<^verbatim>\<open>json.dumps\<close> separates items by a
  comma and a space, and a key from its value by a colon and a space.
\<close>

theorem acme_row_output:
  assumes "request \<in> set (calls (jobspy_bridge interp scrape_jobs argv))"
    and "scrape_jobs request = Inr [acme_job]"
  shows \<open>stdout (jobspy_bridge interp scrape_jobs argv) =
      print (json_dumps (JArray [JObject
        [(py ''title'', JString (py ''Engineer'')),
         (py ''company'', JString (py ''Acme'')),
         (py ''city'', JString (py ''Springfield'')),
         (py ''state'', JString (py ''IL'')),
         (py ''date_posted'', JString (py ''2024-01-01'')),
         (py ''job_url'', JString (py ''http://x'')),
         (py ''description'', JString (py (replicate 300 (CHR ''A''))))]]))
    \<and> stdout (jobspy_bridge interp scrape_jobs argv) =
      ''[{"title": "Engineer", "company": "Acme", "city": "Springfield", "state": "IL", ''
      @ ''"date_posted": "2024-01-01", "job_url": "http://x", "description": "''
      @ replicate 300 (CHR ''A'') @ ''"}]'' @ [CHR 0x0A]\<close>
proof -
  from assms(2) have "try_body interp scrape_jobs request = Inr [acme_listing]"
    by (simp add: try_body_def listing_acme_job)
  with run_called [OF assms(1)]
  have out: "stdout (jobspy_bridge interp scrape_jobs argv) =
      print (json_dumps (JArray [acme_listing]))"
    by simp
  from out have "stdout (jobspy_bridge interp scrape_jobs argv) =
      print (json_dumps (JArray [JObject
        [(py ''title'', JString (py ''Engineer'')),
         (py ''company'', JString (py ''Acme'')),
         (py ''city'', JString (py ''Springfield'')),
         (py ''state'', JString (py ''IL'')),
         (py ''date_posted'', JString (py ''2024-01-01'')),
         (py ''job_url'', JString (py ''http://x'')),
         (py ''description'', JString (py (replicate 300 (CHR ''A''))))]]))"
    by (simp only: acme_listing_def)
  moreover from out have \<open>stdout (jobspy_bridge interp scrape_jobs argv) =
      ''[{"title": "Engineer", "company": "Acme", "city": "Springfield", "state": "IL", ''
      @ ''"date_posted": "2024-01-01", "job_url": "http://x", "description": "''
      @ replicate 300 (CHR ''A'') @ ''"}]'' @ [CHR 0x0A]\<close>
    by (simp only: dumps_acme_job print_def append_assoc)
  ultimately show ?thesis
    by (rule conjI)
qed

theorem acme_row_output_witness:
  \<open>stdout (jobspy_bridge ascii_interpreter returns_acme argv_term_only) =
      ''[{"title": "Engineer", "company": "Acme", "city": "Springfield", "state": "IL", ''
      @ ''"date_posted": "2024-01-01", "job_url": "http://x", "description": "''
      @ replicate 300 (CHR ''A'') @ ''"}]'' @ [CHR 0x0A]\<close>
proof -
  have called:
    "request_term_only \<in> set (calls (jobspy_bridge ascii_interpreter returns_acme argv_term_only))"
    by (simp add: calls_term_only)
  have returned: "returns_acme request_term_only = Inr [acme_job]"
    by (simp add: returns_acme_def)
  from acme_row_output [OF called returned] show ?thesis
    by blast
qed

section \<open>The fields of an emitted object\<close>

text \<open>
  C2. For every row whose listing is emitted, the \<open>description\<close> of the emitted object
  is a string of at most 300 code points: the first \<open>min 300 n\<close> code points of the
  row's description as \<^verbatim>\<open>str\<close> renders it (\<open>n\<close> being its length), with nothing
  appended and no other adjustment, so that the rendered description is the emitted
  one followed by what was cut off.
\<close>

theorem description_truncated:
  assumes "listing interp job = Inr emitted"
  shows "\<exists>source d.
      str interp (get job (py ''description'') (PyStr (py ''''))) = Inr source
    \<and> json_field emitted (py ''description'') = Some (JString d)
    \<and> length d \<le> 300
    \<and> d = take (min 300 (length source)) source
    \<and> source = d @ drop 300 source"
proof -
  have "(py ''description'', py ''description'') \<in> set projection"
    by (simp add: projection_def)
  from field_of_listing [OF assms this]
  obtain source where source: "str interp (get job (py ''description'') (PyStr [])) = Inr source"
    and field: "json_field emitted (py ''description'') = Some (JString (take 300 source))"
    by auto
  have "length (take 300 source) \<le> 300"
    by simp
  moreover have "take 300 source = take (min 300 (length source)) source"
    by (cases "length source \<le> 300") simp_all
  moreover have "source = take 300 source @ drop 300 source"
    by simp
  ultimately show ?thesis
    using source field unfolding py_Nil by blast
qed

theorem description_truncated_witness:
  "listing ascii_interpreter acme_job = Inr acme_listing
   \<and> json_field acme_listing (py ''description'') =
       Some (JString (py (replicate 300 (CHR ''A''))))
   \<and> length (py (replicate 300 (CHR ''A''))) = 300"
proof -
  have emitted: "listing ascii_interpreter acme_job = Inr acme_listing"
    by (rule listing_acme_job)
  have source: "str ascii_interpreter (get acme_job (py ''description'') (PyStr (py ''''))) =
      Inr (py (replicate 500 (CHR ''A'')))"
    by (simp add: acme_job_def get_def)
  from description_truncated [OF emitted]
  obtain d where "json_field acme_listing (py ''description'') = Some (JString d)"
    and "d = take (min 300 (length (py (replicate 500 (CHR ''A'')))))
               (py (replicate 500 (CHR ''A'')))"
    unfolding source by blast
  with emitted show ?thesis
    by (simp add: take_py)
qed

text \<open>
  C7, as amended. For every row whose listing is emitted and each of the seven fields,
  the emitted object has the field's key and binds it to a string, so no field is null
  and no key is left out; and when the row lacks the column the field is read from,
  that string is the empty string. A cell that is there but holds NaN is emitted as
  the text \<open>nan\<close> (and one that holds \<^verbatim>\<open>None\<close> as \<open>None\<close>, see C10).
\<close>

theorem absent_column_gives_empty_string:
  assumes "listing interp job = Inr emitted"
  shows "\<forall>(key, column) \<in> set projection.
     (\<exists>s. json_field emitted key = Some (JString s))
     \<and> (job column = None \<longrightarrow> json_field emitted key = Some (JString []))
     \<and> (job column = Some PyNaN \<longrightarrow> json_field emitted key = Some (JString (py ''nan'')))"
proof (clarify, intro conjI impI)
  fix key column
  assume p: "(key, column) \<in> set projection"
  from field_of_listing [OF assms p]
  obtain s where s: "str interp (get job column (PyStr [])) = Inr s"
    and field: "json_field emitted key =
      Some (JString (if key = py ''description'' then take 300 s else s))"
    by blast
  from field show "\<exists>s. json_field emitted key = Some (JString s)"
    by blast
  {
    assume "job column = None"
    with s have "s = []"
      by (simp add: get_def)
    with field show "json_field emitted key = Some (JString [])"
      by simp
  }
  {
    assume "job column = Some PyNaN"
    with s have "s = py ''nan''"
      by (simp add: get_def)
    with field show "json_field emitted key = Some (JString (py ''nan''))"
      by (simp add: take_py)
  }
qed

theorem absent_column_gives_empty_string_witness:
  "listing ascii_interpreter Map.empty = Inr (JObject
     [(py ''title'', JString []),
      (py ''company'', JString []),
      (py ''city'', JString []),
      (py ''state'', JString []),
      (py ''date_posted'', JString []),
      (py ''job_url'', JString []),
      (py ''description'', JString [])])
   \<and> json_field (JObject
     [(py ''title'', JString []),
      (py ''company'', JString []),
      (py ''city'', JString []),
      (py ''state'', JString []),
      (py ''date_posted'', JString []),
      (py ''job_url'', JString []),
      (py ''description'', JString [])]) (py ''company'') = Some (JString [])"
proof -
  have p: "(py ''company'', py ''company_name'') \<in> set projection"
    by (simp add: projection_def)
  from absent_column_gives_empty_string [OF listing_empty_job [of ascii_interpreter]] p
  show ?thesis
    using listing_empty_job [of ascii_interpreter] by fastforce
qed

text \<open>
  C7 as stated fails for a value that is missing in the way a table has it missing: a
  cell that is there and holds NaN. Its field is emitted as the text \<open>nan\<close>, which is
  not the empty string.
\<close>

theorem missing_value_not_empty_counterexample:
  "missing_value nan_job (py ''title'')
   \<and> listing ascii_interpreter nan_job = Inr (JObject
       [(py ''title'', JString (py ''nan'')),
        (py ''company'', JString (py ''nan'')),
        (py ''city'', JString (py ''nan'')),
        (py ''state'', JString (py ''nan'')),
        (py ''date_posted'', JString (py ''nan'')),
        (py ''job_url'', JString (py ''nan'')),
        (py ''description'', JString (py ''nan''))])
   \<and> py ''nan'' \<noteq> py ''''"
proof -
  have "missing_value nan_job (py ''title'')"
    by (simp add: missing_value_def nan_job_def)
  with listing_nan_job [of ascii_interpreter] show ?thesis
    by simp
qed

text \<open>
  C10. For every row whose listing is emitted and each of the seven fields, when the
  row has the column and its cell is \<^verbatim>\<open>None\<close>, the emitted field is the text
  \<open>None\<close>, which is not the empty string. The default is used only for a column the
  row lacks: a cell that is there is emitted as \<^verbatim>\<open>str\<close> renders it (cut to 300 code
  points for the description).
\<close>

theorem present_None_gives_None_text:
  assumes "listing interp job = Inr emitted"
  shows "\<forall>(key, column) \<in> set projection.
     (job column = Some PyNone \<longrightarrow>
        json_field emitted key = Some (JString (py ''None'')) \<and> py ''None'' \<noteq> [])
     \<and> (\<forall>v. job column = Some v \<longrightarrow>
          (\<exists>s. str interp v = Inr s
             \<and> json_field emitted key =
                 Some (JString (if key = py ''description'' then take 300 s else s))))"
proof (clarify, intro conjI impI allI)
  fix key column
  assume p: "(key, column) \<in> set projection"
  have present: "\<exists>s. str interp v = Inr s
      \<and> json_field emitted key =
          Some (JString (if key = py ''description'' then take 300 s else s))"
    if "job column = Some v" for v
  proof -
    from that have "get job column (PyStr []) = v"
      by (simp add: get_def)
    with field_of_listing [OF assms p] show ?thesis
      by simp
  qed
  then show "\<exists>s. str interp v = Inr s
      \<and> json_field emitted key =
          Some (JString (if key = py ''description'' then take 300 s else s))"
    if "job column = Some v" for v
    using that by blast
  show "py ''None'' \<noteq> []"
    by simp
  assume "job column = Some PyNone"
  from present [OF this] show "json_field emitted key = Some (JString (py ''None''))"
    by (auto simp: take_py)
qed

theorem present_None_gives_None_text_witness:
  "listing ascii_interpreter null_job = Inr (JObject
     [(py ''title'', JString (py ''None'')),
      (py ''company'', JString (py ''None'')),
      (py ''city'', JString (py ''None'')),
      (py ''state'', JString (py ''None'')),
      (py ''date_posted'', JString (py ''None'')),
      (py ''job_url'', JString (py ''None'')),
      (py ''description'', JString (py ''None''))])
   \<and> json_field (JObject
     [(py ''title'', JString (py ''None'')),
      (py ''company'', JString (py ''None'')),
      (py ''city'', JString (py ''None'')),
      (py ''state'', JString (py ''None'')),
      (py ''date_posted'', JString (py ''None'')),
      (py ''job_url'', JString (py ''None'')),
      (py ''description'', JString (py ''None''))]) (py ''description'') =
     Some (JString (py ''None''))"
proof -
  have p: "(py ''description'', py ''description'') \<in> set projection"
    by (simp add: projection_def)
  have cell: "null_job (py ''description'') = Some PyNone"
    by (simp add: null_job_def)
  from present_None_gives_None_text [OF listing_null_job [of ascii_interpreter]] p cell
  show ?thesis
    using listing_null_job [of ascii_interpreter] by fastforce
qed

section \<open>The arguments and the call\<close>

text \<open>
  C3. Whenever a third argument is given and is not an integer literal, the run ends
  in an uncaught \<^verbatim>\<open>ValueError\<close> without any call to the search capability, and the
  script has printed nothing.
\<close>

theorem bad_hours_old_fails_before_call:
  assumes "length argv > 3" and "int_py interp (argv ! 3) = None"
  shows "calls (jobspy_bridge interp scrape_jobs argv) = []
    \<and> ending (jobspy_bridge interp scrape_jobs argv) = Uncaught ValueError
    \<and> stdout (jobspy_bridge interp scrape_jobs argv) = []
    \<and> stderr (jobspy_bridge interp scrape_jobs argv) = []"
  using assms by (simp add: jobspy_bridge_def Let_def)

theorem bad_hours_old_fails_before_call_witness:
  "int_py ascii_interpreter (py ''abc'') = None
   \<and> calls (jobspy_bridge ascii_interpreter returns_acme argv_abc) = []
   \<and> ending (jobspy_bridge ascii_interpreter returns_acme argv_abc) = Uncaught ValueError"
proof -
  have "length argv_abc > 3" and "int_py ascii_interpreter (argv_abc ! 3) = None"
    by (simp_all add: argv_abc_def int_py_abc)
  from bad_hours_old_fails_before_call [OF this] int_py_abc show ?thesis
    by blast
qed





section \<open>Failure of the search capability\<close>

text \<open>
  C4. In every run in which the search capability raises an exception with message
  \<open>m\<close>, standard error holds one line, the JSON text of the object that binds
  \<open>error\<close> to \<open>m\<close>; nothing is printed on standard output and the exit status is 1.
  For the message \<open>rate limited\<close> the line is \<^verbatim>\<open>{"error": "rate limited"}\<close>.
\<close>

theorem scrape_error_reported:
  assumes "request \<in> set (calls (jobspy_bridge interp scrape_jobs argv))"
    and "scrape_jobs request = Inl (Exception m)"
  shows \<open>stderr (jobspy_bridge interp scrape_jobs argv) =
      print (json_dumps (JObject [(py ''error'', JString m)]))
    \<and> stderr (jobspy_bridge interp scrape_jobs argv) =
      ''{"error": '' @ encode_basestring_ascii m @ ''}'' @ [CHR 0x0A]
    \<and> ending (jobspy_bridge interp scrape_jobs argv) = Exit 1
    \<and> stdout (jobspy_bridge interp scrape_jobs argv) = []
    \<and> (m = py ''rate limited'' \<longrightarrow>
         stderr (jobspy_bridge interp scrape_jobs argv) =
           ''{"error": "rate limited"}'' @ [CHR 0x0A])\<close>
proof -
  have "list_all plain ''error''" "list_all plain ''rate limited''"
    by (simp_all add: plain_def)
  moreover from assms(2) have "try_body interp scrape_jobs request = Inl (Exception m)"
    by (simp add: try_body_def)
  ultimately show ?thesis
    using run_called [OF assms(1)]
    by (simp add: print_def encode_plain)
qed

theorem scrape_error_reported_witness:
  \<open>stderr (jobspy_bridge ascii_interpreter rate_limited argv_all) =
     ''{"error": "rate limited"}'' @ [CHR 0x0A]
   \<and> ending (jobspy_bridge ascii_interpreter rate_limited argv_all) = Exit 1
   \<and> stdout (jobspy_bridge ascii_interpreter rate_limited argv_all) = []\<close>
proof -
  have called: "request_all \<in> set (calls (jobspy_bridge ascii_interpreter rate_limited argv_all))"
    by (simp add: calls_all)
  have raised: "rate_limited request_all = Inl (Exception (py ''rate limited''))"
    by (simp add: rate_limited_def)
  from scrape_error_reported [OF called raised] show ?thesis
    by blast
qed


section \<open>All or nothing\<close>




end
